theory Spec2Isabelle
  imports Main "HOL-Library.Word"
begin

unbundle bit_operations_syntax

section \<open>The bit-level transceiver (lib/tiny485/tiny485.c)\<close>

subsection \<open>Constants\<close>

definition T485_BIT_TIMER :: "8 word" where
  "T485_BIT_TIMER = 104"

definition T485_RECV_SEED :: "8 word" where
  "T485_RECV_SEED = 0x07"

definition T485_XMIT_SEED :: "8 word" where
  "T485_XMIT_SEED = 0x0B"

definition T485_INIT1 :: "8 word" where
  "T485_INIT1 = 0x7F"

definition T485_INIT2 :: "8 word" where
  "T485_INIT2 = 0xC0"

definition T485_SYNC_BYTE :: "8 word" where
  "T485_SYNC_BYTE = 0xFF"

definition T485_ESCAPE_BYTE :: "8 word" where
  "T485_ESCAPE_BYTE = 0x55"

definition T485_ESCAPED_SYNC :: "8 word" where
  "T485_ESCAPED_SYNC = 0x00"

definition T485_ESCAPED_ESCAPE :: "8 word" where
  "T485_ESCAPED_ESCAPE = 0x01"

definition T485_FLAG_ESCAPE :: "8 word" where
  "T485_FLAG_ESCAPE = 0x01"

text \<open>
  \<open>USIOIF\<close> is the bit number of the overflow flag in \<open>USISR\<close>; it comes from the
  device header \<open>avr/io.h\<close> (bit 6 on the ATtiny85).
\<close>

definition USIOIF :: nat where
  "USIOIF = 6"

definition BV :: "nat \<Rightarrow> 8 word" where
  "BV n = push_bit n 1"

subsection \<open>State\<close>

datatype t485_state =
    T485_STATE_INIT1
  | T485_STATE_INIT2
  | T485_STATE_IDLE
  | T485_STATE_RECV
  | T485_STATE_XMIT1
  | T485_STATE_XMIT2

text \<open>
  The static struct \<open>t485_data\<close> (fields \<open>state\<close>, \<open>flags\<close>, \<open>buf\<close>) together with the
  I/O registers the code reads and writes. A register holds the last value written to
  it. \<open>USIBR\<close> is the receive buffer of the shift register, \<open>DI_level\<close> is the level of
  the data-in pin as read by \<open>USI_PORT & _BV(DI)\<close>, and \<open>SREG_I\<close> is the global
  interrupt enable set by \<open>sei()\<close>.
\<close>

record tiny485 =
  t485_data_state :: t485_state
  t485_data_flags :: "8 word"
  t485_data_buf :: "8 word"
  TCCR0B :: "8 word"
  TCNT0 :: "8 word"
  USICR :: "8 word"
  USISR :: "8 word"
  USIDR :: "8 word"
  USIBR :: "8 word"
  GIMSK :: "8 word"
  DEN_PORT :: "8 word"
  DI_level :: bool
  SREG_I :: bool

text \<open>The notifications to the layer above (declared in \<open>interop.h\<close>).\<close>

datatype notification = sync_received | byte_received "8 word" | byte_sent

subsection \<open>bit\_reverse\<close>

text \<open>
  The loop \<open>for(i=0; i<=7; i++) if(b & (1 << i)) buf |= (1 << (7-i));\<close> with the
  loop counter as a natural number (it never exceeds 8).
\<close>

function bit_reverse_loop :: "nat \<Rightarrow> 8 word \<Rightarrow> 8 word \<Rightarrow> 8 word" where
  "bit_reverse_loop i b buf =
     (if i \<le> 7
      then bit_reverse_loop (i + 1) b
             (if b AND push_bit i 1 \<noteq> 0 then buf OR push_bit (7 - i) 1 else buf)
      else buf)"
  by pat_completeness auto
termination
  by (relation "measure (\<lambda>(i, b, buf). 8 - i)") auto

declare bit_reverse_loop.simps [simp del]

definition bit_reverse :: "8 word \<Rightarrow> 8 word" where
  "bit_reverse b = bit_reverse_loop 0 b 0x0"

subsection \<open>Hardware switching macros\<close>

definition TIM0_ON :: "tiny485 \<Rightarrow> tiny485" where
  "TIM0_ON s = s\<lparr>TCCR0B := TCCR0B s OR 0x02\<rparr>"

definition TIM0_OFF :: "tiny485 \<Rightarrow> tiny485" where
  "TIM0_OFF s = s\<lparr>TCCR0B := TCCR0B s AND 0xF8\<rparr>"

definition USI_ON :: "tiny485 \<Rightarrow> tiny485" where
  "USI_ON s = s\<lparr>USICR := USICR s OR 0x14\<rparr>"

definition USI_OFF :: "tiny485 \<Rightarrow> tiny485" where
  "USI_OFF s = s\<lparr>USICR := USICR s AND 0xC3\<rparr>"

definition PCINT0_ON :: "tiny485 \<Rightarrow> tiny485" where
  "PCINT0_ON s = s\<lparr>GIMSK := GIMSK s OR 0x20\<rparr>"

definition PCINT0_OFF :: "tiny485 \<Rightarrow> tiny485" where
  "PCINT0_OFF s = s\<lparr>GIMSK := GIMSK s AND 0xDF\<rparr>"

definition USICOUNTER :: "8 word \<Rightarrow> tiny485 \<Rightarrow> tiny485" where
  "USICOUNTER n s = s\<lparr>USISR := (USISR s AND 0xF0) OR n\<rparr>"

definition sei :: "tiny485 \<Rightarrow> tiny485" where
  "sei s = s\<lparr>SREG_I := True\<rparr>"

subsection \<open>Interface functions\<close>

text \<open>
  \<open>DEN\<close>, the bit of the line-driver enable in \<open>DEN_PORT\<close>, is defined in
  \<open>tiny485_pin.h\<close>; it is a parameter here.
\<close>

definition begin_transmission :: "nat \<Rightarrow> tiny485 \<Rightarrow> tiny485" where
  "begin_transmission DEN s = PCINT0_OFF (s\<lparr>DEN_PORT := DEN_PORT s OR BV DEN\<rparr>)"

definition end_transmission :: "nat \<Rightarrow> tiny485 \<Rightarrow> tiny485" where
  "end_transmission DEN s = PCINT0_ON (s\<lparr>DEN_PORT := DEN_PORT s AND NOT (BV DEN)\<rparr>)"

definition send_byte :: "8 word \<Rightarrow> tiny485 \<Rightarrow> tiny485" where
  "send_byte b s =
     (let s1 = s\<lparr>USIDR := drop_bit 1 b\<rparr>;
          s2 = USICOUNTER T485_XMIT_SEED s1;
          s3 = s2\<lparr>t485_data_buf := push_bit 4 b OR 0x0F\<rparr>;
          s4 = s3\<lparr>t485_data_state := T485_STATE_XMIT1\<rparr>;
          s5 = USI_ON s4
      in TIM0_ON s5)"

subsection \<open>Interrupt vectors\<close>

definition PCINT0_vect :: "tiny485 \<Rightarrow> tiny485" where
  "PCINT0_vect s =
     (case t485_data_state s of
        T485_STATE_INIT1 \<Rightarrow> s\<lparr>TCNT0 := T485_BIT_TIMER div 2\<rparr>
      | T485_STATE_INIT2 \<Rightarrow> s\<lparr>TCNT0 := T485_BIT_TIMER div 2\<rparr>
      | T485_STATE_IDLE \<Rightarrow>
          (if \<not> DI_level s
           then (let s1 = s\<lparr>TCNT0 := T485_BIT_TIMER div 2\<rparr>;
                     s2 = s1\<lparr>t485_data_state := T485_STATE_RECV\<rparr>;
                     s3 = USICOUNTER T485_RECV_SEED s2;
                     s4 = PCINT0_OFF s3;
                     s5 = TIM0_ON s4
                 in USI_ON s5)
           else s)
      | _ \<Rightarrow> s)"

definition TIM0_COMPA_vect :: "tiny485 \<Rightarrow> tiny485 \<times> notification list" where
  "TIM0_COMPA_vect s =
     (case t485_data_state s of
        T485_STATE_INIT1 \<Rightarrow>
          (if USIDR s = T485_INIT1
           then (s\<lparr>t485_data_state := T485_STATE_INIT2, USIDR := 0\<rparr>, [])
           else (s, []))
      | T485_STATE_INIT2 \<Rightarrow>
          (if USIDR s = T485_INIT2
           then (s\<lparr>t485_data_state := T485_STATE_IDLE\<rparr>, [sync_received])
           else (s, []))
      | _ \<Rightarrow> (s, []))"

text \<open>
  The overflow vector returns the new state and the notifications it made, in order.
  In the receive case the shift register has been switched off before \<open>USIBR\<close> is
  read, so every read of \<open>USIBR\<close> in the handler sees the same value.
\<close>

definition USI_OVF_vect :: "tiny485 \<Rightarrow> tiny485 \<times> notification list" where
  "USI_OVF_vect s =
     (case t485_data_state s of
        T485_STATE_XMIT1 \<Rightarrow>
          (let s1 = s\<lparr>USISR := USISR s OR BV USIOIF\<rparr>;
               s2 = s1\<lparr>USIDR := t485_data_buf s1\<rparr>;
               s3 = USICOUNTER T485_XMIT_SEED s2
           in (s3\<lparr>t485_data_state := T485_STATE_XMIT2\<rparr>, []))
      | T485_STATE_XMIT2 \<Rightarrow>
          (let s1 = s\<lparr>USISR := USISR s OR BV USIOIF\<rparr>;
               s2 = USI_OFF s1;
               s3 = TIM0_OFF s2;
               s4 = s3\<lparr>t485_data_state := T485_STATE_IDLE\<rparr>
           in (sei s4, [byte_sent]))
      | T485_STATE_RECV \<Rightarrow>
          (let s1 = USI_OFF s;
               s2 = TIM0_OFF s1;
               s3 = s2\<lparr>t485_data_state := T485_STATE_IDLE\<rparr>;
               s4 = s3\<lparr>t485_data_buf := USIBR s3\<rparr>;
               s5 = PCINT0_OFF s4;
               s6 = sei s5
           in if USIBR s6 = T485_SYNC_BYTE then (s6, [sync_received])
              else if USIBR s6 = T485_ESCAPE_BYTE
              then (s6\<lparr>t485_data_flags := t485_data_flags s6 OR T485_FLAG_ESCAPE\<rparr>, [])
              else if t485_data_flags s6 AND T485_FLAG_ESCAPE \<noteq> 0
              then (if USIBR s6 = T485_ESCAPED_SYNC
                    then (s6, [byte_received T485_SYNC_BYTE])
                    else if USIBR s6 = T485_ESCAPED_ESCAPE
                    then (s6, [byte_received T485_ESCAPE_BYTE])
                    else (s6, [byte_received (USIBR s6)]))
              else (s6, [byte_received (USIBR s6)]))
      | _ \<Rightarrow> (s, []))"

subsection \<open>The shift register on the wire\<close>

text \<open>
  The shift register is a peripheral, not code. As the comments at the seeds say, a load
  with \<open>T485_XMIT_SEED\<close> shifts out \<open>16 - 11 = 5\<close> bits and a load with
  \<open>T485_RECV_SEED\<close> shifts in \<open>16 - 7 = 9\<close> bits (start bit and data); the register
  shifts towards the most significant bit, which is the one on the data-out pin.
  \<open>wire_bits b s\<close> are the ten bits that \<open>send_byte b\<close> and the overflow handler of
  the first half put on the wire, and \<open>wire_byte\<close> is what a receiver finds in its
  buffer register after clocking in the first nine of them.
\<close>

definition usi_shift_out :: "nat \<Rightarrow> 8 word \<Rightarrow> bool list" where
  "usi_shift_out n d = map (\<lambda>k. bit d (7 - k)) [0..<n]"

definition usi_shift_in :: "bool list \<Rightarrow> 8 word" where
  "usi_shift_in bits = foldl (\<lambda>w x. push_bit 1 w OR (if x then 1 else 0)) 0 bits"

definition wire_bits :: "8 word \<Rightarrow> tiny485 \<Rightarrow> bool list" where
  "wire_bits b s =
     (let s1 = send_byte b s;
          s2 = fst (USI_OVF_vect s1)
      in usi_shift_out (16 - unat T485_XMIT_SEED) (USIDR s1)
         @ usi_shift_out (16 - unat T485_XMIT_SEED) (USIDR s2))"

definition wire_byte :: "bool list \<Rightarrow> 8 word" where
  "wire_byte bits = usi_shift_in (take (16 - unat T485_RECV_SEED) bits)"

subsection \<open>Concrete transceiver states\<close>

text \<open>
  The state \<open>tiny485_init\<close> leaves behind when built without \<open>REQUIRE_SYNC\<close>: idle,
  flags and buffer zero, timer and shift register configured, pin-change interrupt
  and global interrupts enabled, line at rest (high).
\<close>

definition t485_idle :: tiny485 where
  "t485_idle =
     \<lparr>t485_data_state = T485_STATE_IDLE, t485_data_flags = 0, t485_data_buf = 0,
      TCCR0B = 0x02, TCNT0 = 0, USICR = 0x50, USISR = 0, USIDR = 0, USIBR = 0,
      GIMSK = 0x20, DEN_PORT = 0, DI_level = True, SREG_I = True\<rparr>"

text \<open>
  A start bit seen in the idle state (the pin-change handler has run), with the byte
  \<open>b\<close> then clocked into the buffer register: the state at which the overflow
  handler is entered for a received byte.
\<close>

definition t485_receiving :: "8 word \<Rightarrow> tiny485 \<Rightarrow> tiny485" where
  "t485_receiving b s = (PCINT0_vect (s\<lparr>DI_level := False\<rparr>))\<lparr>USIBR := b\<rparr>"

text \<open>The same with the escape flag already set by an earlier escape byte.\<close>

definition t485_escaped :: tiny485 where
  "t485_escaped = t485_idle\<lparr>t485_data_flags := T485_FLAG_ESCAPE\<rparr>"

text \<open>
  The second half of a byte in transmission: the layer above has called
  \<open>begin_transmission\<close> (line-driver enable on bit 3 of its port) and
  \<open>send_byte 0x41\<close>, and the first overflow has loaded the second half.
\<close>

definition t485_xmit2 :: tiny485 where
  "t485_xmit2 = fst (USI_OVF_vect (send_byte 0x41 (begin_transmission 3 t485_idle)))"

section \<open>The frame protocol (scratch/tinyhack/sbp.c)\<close>

subsection \<open>Constants\<close>

definition SBP_HEADER_LENGTH :: "16 word" where
  "SBP_HEADER_LENGTH = 6"

definition SBP_CHECKSUM_LENGTH :: "16 word" where
  "SBP_CHECKSUM_LENGTH = 1"

definition SBP_FLAG_ERROR :: "8 word" where
  "SBP_FLAG_ERROR = 0x01"

definition SBP_FLAG_ESCAPE :: "8 word" where
  "SBP_FLAG_ESCAPE = 0x02"

definition SBP_BYTE_SYNC :: "8 word" where
  "SBP_BYTE_SYNC = 0xAA"

definition SBP_BYTE_ESCAPE :: "8 word" where
  "SBP_BYTE_ESCAPE = 0x55"

subsection \<open>State\<close>

datatype sbp_state_t =
    SBP_INIT
  | SBP_IDLE
  | SBP_XMIT_HEADER
  | SBP_XMIT_PAYLOAD
  | SBP_XMIT_CHECKSUM
  | SBP_RECV_HEADER
  | SBP_RECV_PAYLOAD
  | SBP_RECV_CHECKSUM
  | SBP_RECV_IGNORE

text \<open>
  Modelled from the spec: the type \<open>sbp_frame_t\<close> is declared in \<open>sbp.h\<close>, which is
  not among the sources. Its fields are the ones \<open>sbp_init\<close>, \<open>sbp_send\<close> and the
  overflow handler use, with the widths of the frame table (one byte each, a two-byte
  length); the handler's \<open>frame.len\<close> and \<open>sbp_send\<close>'s \<open>frame.length\<close> are the one
  length field of that table. Pointers are 16-bit addresses.
\<close>

record sbp_frame_t =
  frame_sync :: "8 word"
  frame_type :: "8 word"
  frame_length :: "16 word"
  frame_dst :: "8 word"
  frame_src :: "8 word"
  frame_payload :: "16 word"
  frame_msg :: "16 word"
  frame_checksum :: "8 word"

text \<open>
  The static struct \<open>_data\<close> with the buffer register \<open>USIBR\<close> of the shift register.
  \<open>data_checksum\<close> is the \<open>_data.checksum\<close> the overflow handler reads. The helpers
  \<open>disable_usi()\<close> and \<open>enable_tim0_int()\<close> are not defined in the sources; the two
  flags \<open>usi_enabled\<close> and \<open>tim0_int_enabled\<close> record that they were called.
\<close>

record sbp =
  data_state :: sbp_state_t
  data_index :: "16 word"
  data_size :: "16 word"
  data_flags :: "8 word"
  data_address :: "8 word"
  data_frame :: sbp_frame_t
  data_checksum :: "8 word"
  sbp_USIBR :: "8 word"
  usi_enabled :: bool
  tim0_int_enabled :: bool

subsection \<open>Operations\<close>

definition sbp_init :: "8 word \<Rightarrow> sbp \<Rightarrow> sbp" where
  "sbp_init address s =
     s\<lparr>data_state := SBP_INIT,
       data_flags := 0,
       data_frame := (data_frame s)\<lparr>frame_msg := 0, frame_length := 0\<rparr>,
       data_index := 0,
       data_address := address\<rparr>"

definition sbp_idle :: "sbp \<Rightarrow> bool" where
  "sbp_idle s = (data_state s = SBP_IDLE)"

text \<open>
  \<open>length + SBP_HEADER_LENGTH + SBP_CHECKSUM_LENGTH\<close> is stored in the two-byte
  length field, so the sum is taken modulo \<open>2 ^ 16\<close>.
\<close>

definition sbp_send :: "8 word \<Rightarrow> 8 word \<Rightarrow> 16 word \<Rightarrow> 16 word \<Rightarrow> sbp \<Rightarrow> sbp" where
  "sbp_send dst type len msg s =
     (if data_state s = SBP_IDLE
      then s\<lparr>data_state := SBP_XMIT_HEADER,
             data_index := 0,
             data_frame := (data_frame s)
               \<lparr>frame_sync := SBP_BYTE_SYNC,
                frame_type := type,
                frame_length := len + SBP_HEADER_LENGTH + SBP_CHECKSUM_LENGTH,
                frame_dst := dst,
                frame_src := data_address s,
                frame_payload := msg,
                frame_checksum := 0x0\<rparr>\<rparr>
      else s)"

text \<open>
  The overflow handler of \<open>sbp.c\<close> (named \<open>USI_OVF_vect\<close> there as well). It makes no
  call to the layer above. The receive-payload case consists of an assignment
  \<open>USIBR =\<close> without a right-hand side and of comments, the receive-checksum and ignore
  cases of comments only: none of them changes anything. The \<open>default\<close> case of
  the \<open>switch\<close> covers no member of the enumeration.
\<close>

definition sbp_USI_OVF_vect :: "sbp \<Rightarrow> sbp" where
  "sbp_USI_OVF_vect s =
     (case data_state s of
        SBP_INIT \<Rightarrow> s
      | SBP_IDLE \<Rightarrow> s
      | SBP_XMIT_HEADER \<Rightarrow>
          (if data_index s = 0 then s\<lparr>sbp_USIBR := frame_sync (data_frame s)\<rparr>
           else if data_index s = 1 then s\<lparr>sbp_USIBR := frame_type (data_frame s)\<rparr>
           else if data_index s = 2
           then s\<lparr>sbp_USIBR := ucast (frame_length (data_frame s) AND 0xFF)\<rparr>
           else if data_index s = 3
           then s\<lparr>sbp_USIBR := ucast (drop_bit 8 (frame_length (data_frame s)) AND 0xFF)\<rparr>
           else if data_index s = 4 then s\<lparr>sbp_USIBR := frame_dst (data_frame s)\<rparr>
           else if data_index s = 5 then s\<lparr>sbp_USIBR := frame_src (data_frame s)\<rparr>
           else s\<lparr>data_state := SBP_XMIT_PAYLOAD\<rparr>)
      | SBP_XMIT_PAYLOAD \<Rightarrow>
          (if data_index s = data_size s + SBP_HEADER_LENGTH
           then s\<lparr>data_state := SBP_XMIT_CHECKSUM\<rparr>
           else s)
      | SBP_XMIT_CHECKSUM \<Rightarrow>
          s\<lparr>sbp_USIBR := data_checksum s,
            data_state := SBP_IDLE,
            usi_enabled := False,
            tim0_int_enabled := True\<rparr>
      | SBP_RECV_HEADER \<Rightarrow>
          (let s1 =
             (if data_index s = 0
              then s\<lparr>data_frame := (data_frame s)\<lparr>frame_sync := sbp_USIBR s\<rparr>\<rparr>
              else if data_index s = 1
              then s\<lparr>data_frame := (data_frame s)\<lparr>frame_type := sbp_USIBR s\<rparr>\<rparr>
              else if data_index s = 2
              then s\<lparr>data_frame := (data_frame s)\<lparr>frame_length := ucast (sbp_USIBR s)\<rparr>\<rparr>
              else if data_index s = 3
              then s\<lparr>data_frame := (data_frame s)
                     \<lparr>frame_length := frame_length (data_frame s)
                                        OR push_bit 8 (ucast (sbp_USIBR s))\<rparr>\<rparr>
              else if data_index s = 4
              then s\<lparr>data_frame := (data_frame s)\<lparr>frame_dst := sbp_USIBR s\<rparr>\<rparr>
              else if data_index s = 5
              then s\<lparr>data_frame := (data_frame s)\<lparr>frame_src := sbp_USIBR s\<rparr>,
                     data_state := SBP_RECV_PAYLOAD\<rparr>
              else s\<lparr>data_state := SBP_RECV_PAYLOAD\<rparr>)
           in s1\<lparr>data_index := data_index s1 + 1\<rparr>)
      | SBP_RECV_PAYLOAD \<Rightarrow> s
      | SBP_RECV_CHECKSUM \<Rightarrow> s
      | SBP_RECV_IGNORE \<Rightarrow> s)"

text \<open>
  One overflow event per received byte: the shift register has the byte in \<open>USIBR\<close>
  when the handler runs.
\<close>

definition sbp_receive_bytes :: "8 word list \<Rightarrow> sbp \<Rightarrow> sbp" where
  "sbp_receive_bytes bs s = fold (\<lambda>b t. sbp_USI_OVF_vect (t\<lparr>sbp_USIBR := b\<rparr>)) bs s"

subsection \<open>Concrete protocol states\<close>

text \<open>Node 0x02, idle, with nothing sent or received so far.\<close>

definition sbp_node2_idle :: sbp where
  "sbp_node2_idle =
     \<lparr>data_state = SBP_IDLE, data_index = 0, data_size = 0, data_flags = 0,
      data_address = 0x02,
      data_frame = \<lparr>frame_sync = 0, frame_type = 0, frame_length = 0, frame_dst = 0,
                    frame_src = 0, frame_payload = 0, frame_msg = 0, frame_checksum = 0\<rparr>,
      data_checksum = 0, sbp_USIBR = 0, usi_enabled = False, tim0_int_enabled = True\<rparr>"

text \<open>
  The same node after a sync byte: awaiting the header at index 1, as both
  branches of the timer handler set it.
\<close>

definition sbp_node2_header :: sbp where
  "sbp_node2_header =
     sbp_node2_idle\<lparr>data_state := SBP_RECV_HEADER, data_index := 1, usi_enabled := True,
                    tim0_int_enabled := False\<rparr>"

text \<open>The same node awaiting the checksum byte, with 0x5A accumulated.\<close>

definition sbp_node2_checksum :: sbp where
  "sbp_node2_checksum =
     sbp_node2_idle\<lparr>data_state := SBP_RECV_CHECKSUM, data_index := 7, data_checksum := 0x5A,
                    usi_enabled := True, tim0_int_enabled := False\<rparr>"

text \<open>The same node in the middle of another transmission.\<close>

definition sbp_node2_busy :: sbp where
  "sbp_node2_busy = sbp_node2_idle\<lparr>data_state := SBP_XMIT_PAYLOAD, data_index := 6\<rparr>"

section \<open>Properties of the transceiver\<close>

lemmas t485_macros = TIM0_ON_def TIM0_OFF_def USI_ON_def USI_OFF_def PCINT0_ON_def
  PCINT0_OFF_def USICOUNTER_def sei_def BV_def

lemmas t485_consts = T485_BIT_TIMER_def T485_RECV_SEED_def T485_XMIT_SEED_def
  T485_SYNC_BYTE_def T485_ESCAPE_BYTE_def T485_ESCAPED_SYNC_def T485_ESCAPED_ESCAPE_def
  T485_FLAG_ESCAPE_def USIOIF_def

lemmas t485_states = t485_idle_def t485_escaped_def t485_receiving_def t485_xmit2_def

lemmas t485_isr = USI_OVF_vect_def Let_def t485_macros t485_consts

subsection \<open>The concrete states, evaluated\<close>

lemma idle_receiving:
  "t485_receiving b t485_idle =
     \<lparr>t485_data_state = T485_STATE_RECV, t485_data_flags = 0, t485_data_buf = 0,
      TCCR0B = 0x02, TCNT0 = 52, USICR = 0x54, USISR = 0x07, USIDR = 0, USIBR = b,
      GIMSK = 0, DEN_PORT = 0, DI_level = False, SREG_I = True\<rparr>"
  by (simp add: t485_states PCINT0_vect_def Let_def t485_macros t485_consts)

lemma escaped_receiving:
  "t485_receiving b t485_escaped =
     \<lparr>t485_data_state = T485_STATE_RECV, t485_data_flags = 0x01, t485_data_buf = 0,
      TCCR0B = 0x02, TCNT0 = 52, USICR = 0x54, USISR = 0x07, USIDR = 0, USIBR = b,
      GIMSK = 0, DEN_PORT = 0, DI_level = False, SREG_I = True\<rparr>"
  by (simp add: t485_states PCINT0_vect_def Let_def t485_macros t485_consts)

lemma xmit2_state:
  "t485_xmit2 =
     \<lparr>t485_data_state = T485_STATE_XMIT2, t485_data_flags = 0, t485_data_buf = 0x1F,
      TCCR0B = 0x02, TCNT0 = 0, USICR = 0x54, USISR = 0x4B, USIDR = 0x1F, USIBR = 0,
      GIMSK = 0, DEN_PORT = 0x08, DI_level = True, SREG_I = True\<rparr>"
  by (simp add: t485_states USI_OVF_vect_def send_byte_def begin_transmission_def Let_def
      t485_macros t485_consts)

subsection \<open>What send\_byte puts on the wire\<close>

lemma no_bit_8: "\<not> bit b 8" for b :: "8 word"
  using bit_imp_le_length [of b 8] by auto

lemma wire_bits_eq:
  "wire_bits b s =
     [False, bit b 7, bit b 6, bit b 5, bit b 4, bit b 3, bit b 2, bit b 1, bit b 0, True]"
  by (simp add: wire_bits_def send_byte_def USI_OVF_vect_def Let_def t485_macros
      t485_consts usi_shift_out_def upt_rec bit_simps no_bit_8)

text \<open>
  The byte handed to \<open>send_byte\<close> arrives in the receiver's buffer register as it is,
  whatever its value: start bit, the eight bits of \<open>b\<close>, stop bit.
\<close>

lemma wire_byte_wire_bits: "wire_byte (wire_bits b s) = b"
proof (rule bit_eqI)
  fix n
  assume "possible_bit TYPE(8 word) n"
  then have "n < 8" by simp
  then consider "n = 0" | "n = 1" | "n = 2" | "n = 3" | "n = 4" | "n = 5" | "n = 6" | "n = 7"
    by arith
  then show "bit (wire_byte (wire_bits b s)) n = bit b n"
    by cases
      (simp_all add: wire_bits_eq wire_byte_def usi_shift_in_def t485_consts bit_simps)
qed

text \<open>
  Claim C1 (escape codec round trip). The transmit side has no escaping:
  \<open>send_byte\<close> given the sync byte 0xFF puts the bits of 0xFF on the wire, not the
  escape byte followed by \<open>T485_ESCAPED_SYNC\<close>, and the receiving overflow handler
  reports a synchronisation and delivers no byte. Given the escape byte 0x55 it puts
  0x55 on the wire, and the receiver delivers nothing at all.
\<close>

theorem send_byte_sync_unescaped:
  "wire_bits T485_SYNC_BYTE t485_idle
     = [False, True, True, True, True, True, True, True, True, True]
   \<and> wire_byte (wire_bits T485_SYNC_BYTE t485_idle) = T485_SYNC_BYTE
   \<and> snd (USI_OVF_vect
        (t485_receiving (wire_byte (wire_bits T485_SYNC_BYTE t485_idle)) t485_idle))
     = [sync_received]
   \<and> wire_byte (wire_bits T485_ESCAPE_BYTE t485_idle) = T485_ESCAPE_BYTE
   \<and> snd (USI_OVF_vect
        (t485_receiving (wire_byte (wire_bits T485_ESCAPE_BYTE t485_idle)) t485_idle))
     = []"
proof (intro conjI)
  show "wire_bits T485_SYNC_BYTE t485_idle
          = [False, True, True, True, True, True, True, True, True, True]"
    by (simp add: wire_bits_eq T485_SYNC_BYTE_def)
  show "wire_byte (wire_bits T485_SYNC_BYTE t485_idle) = T485_SYNC_BYTE"
    by (rule wire_byte_wire_bits)
  show "snd (USI_OVF_vect
          (t485_receiving (wire_byte (wire_bits T485_SYNC_BYTE t485_idle)) t485_idle))
        = [sync_received]"
    unfolding wire_byte_wire_bits by (simp add: idle_receiving t485_isr)
  show "wire_byte (wire_bits T485_ESCAPE_BYTE t485_idle) = T485_ESCAPE_BYTE"
    by (rule wire_byte_wire_bits)
  show "snd (USI_OVF_vect
          (t485_receiving (wire_byte (wire_bits T485_ESCAPE_BYTE t485_idle)) t485_idle))
        = []"
    unfolding wire_byte_wire_bits by (simp add: idle_receiving t485_isr)
qed

subsection \<open>The escape flag\<close>

text \<open>
  The overflow handler sets the escape flag only in the receive state and only on the
  escape byte.
\<close>

lemma escape_flag_set_only_by_escape_byte:
  assumes "t485_data_flags s AND T485_FLAG_ESCAPE = 0"
    and "t485_data_flags (fst (USI_OVF_vect s)) AND T485_FLAG_ESCAPE \<noteq> 0"
  shows "t485_data_state s = T485_STATE_RECV \<and> USIBR s = T485_ESCAPE_BYTE"
  using assms by (cases "t485_data_state s") (auto simp: t485_isr split: if_splits)

text \<open>No case of the overflow handler clears the escape flag once it is set.\<close>

lemma escape_flag_never_cleared:
  assumes "t485_data_flags s AND T485_FLAG_ESCAPE \<noteq> 0"
  shows "t485_data_flags (fst (USI_OVF_vect s)) AND T485_FLAG_ESCAPE \<noteq> 0"
proof -
  have "(f OR 1) AND 1 = 1" for f :: "8 word"
    by (rule bit_eqI) (auto simp: bit_simps)
  with assms show ?thesis
    by (cases "t485_data_state s") (auto simp: t485_isr)
qed

text \<open>
  Claim C2 (escape-pending invariant). A receive event that begins with the escape
  flag set and the byte \<open>T485_ESCAPED_SYNC\<close> in the buffer register delivers the sync
  byte value upward and ends with the escape flag still set: the flag is not cleared
  by the byte that follows the escape byte.
\<close>

theorem escape_flag_stays_set:
  "t485_data_state (t485_receiving T485_ESCAPED_SYNC t485_escaped) = T485_STATE_RECV
   \<and> t485_data_flags (t485_receiving T485_ESCAPED_SYNC t485_escaped) = T485_FLAG_ESCAPE
   \<and> snd (USI_OVF_vect (t485_receiving T485_ESCAPED_SYNC t485_escaped))
       = [byte_received T485_SYNC_BYTE]
   \<and> t485_data_flags (fst (USI_OVF_vect (t485_receiving T485_ESCAPED_SYNC t485_escaped)))
       = T485_FLAG_ESCAPE"
  by (simp add: escaped_receiving t485_isr)

subsection \<open>Completion of a received byte\<close>

text \<open>
  In the receive state the handler calls \<open>PCINT0_OFF()\<close>: whatever the interrupt mask
  was, the pin-change interrupt is disabled when the handler is done.
\<close>

lemma receive_switches_edge_interrupt_off:
  assumes "t485_data_state s = T485_STATE_RECV"
  shows "\<not> bit (GIMSK (fst (USI_OVF_vect s))) 5"
  using assms by (auto simp: t485_isr bit_simps)

text \<open>
  Claim C7 (receive completion effects). After a start bit in the idle state and the
  byte 0x41 clocked in, the overflow handler delivers the byte and returns to the
  idle state, but the pin-change interrupt enable (bit 5 of \<open>GIMSK\<close>) is clear
  afterwards: the edge interrupt is not re-enabled.
\<close>

theorem receive_leaves_edge_interrupt_off:
  "t485_data_state (t485_receiving 0x41 t485_idle) = T485_STATE_RECV
   \<and> snd (USI_OVF_vect (t485_receiving 0x41 t485_idle)) = [byte_received 0x41]
   \<and> t485_data_state (fst (USI_OVF_vect (t485_receiving 0x41 t485_idle))) = T485_STATE_IDLE
   \<and> GIMSK (fst (USI_OVF_vect (t485_receiving 0x41 t485_idle))) = 0
   \<and> \<not> bit (GIMSK (fst (USI_OVF_vect (t485_receiving 0x41 t485_idle)))) 5"
  by (simp add: idle_receiving t485_isr)

subsection \<open>Completion of a transmitted byte\<close>

text \<open>
  Claim C8, as stated, fails: at the overflow that ends the second half of a byte
  the line-driver enable (here bit 3 of its port) is still asserted afterwards and
  the pin-change interrupt (bit 5 of \<open>GIMSK\<close>) is still disabled.
\<close>

theorem xmit2_keeps_driver_enabled:
  "t485_data_state t485_xmit2 = T485_STATE_XMIT2
   \<and> bit (DEN_PORT (fst (USI_OVF_vect t485_xmit2))) 3
   \<and> \<not> bit (GIMSK (fst (USI_OVF_vect t485_xmit2))) 5"
  by (simp add: xmit2_state t485_isr bit_simps)

text \<open>
  Claim C8 (transmit completion effects), amended. For every overflow event in the
  state \<open>T485_STATE_XMIT2\<close> the handler switches the shift register off, stops the
  byte-clock timer (clock-select bits of \<open>TCCR0B\<close> zero), goes to the idle state and
  signals "byte sent", and it leaves the line-driver enable and the pin-change
  interrupt mask as they were. Deasserting the line-driver enable and re-enabling the
  pin-change interrupt is what the separate interface function \<open>end_transmission\<close>
  does when the layer above calls it.
\<close>

theorem xmit2_overflow_effects:
  assumes "t485_data_state s = T485_STATE_XMIT2"
  shows "USICR (fst (USI_OVF_vect s)) AND 0x3C = 0
     \<and> TCCR0B (fst (USI_OVF_vect s)) AND 0x07 = 0
     \<and> t485_data_state (fst (USI_OVF_vect s)) = T485_STATE_IDLE
     \<and> snd (USI_OVF_vect s) = [byte_sent]
     \<and> DEN_PORT (fst (USI_OVF_vect s)) = DEN_PORT s
     \<and> GIMSK (fst (USI_OVF_vect s)) = GIMSK s
     \<and> \<not> bit (DEN_PORT (end_transmission DEN (fst (USI_OVF_vect s)))) DEN
     \<and> bit (GIMSK (end_transmission DEN (fst (USI_OVF_vect s)))) 5"
  using assms
  by (simp add: t485_isr end_transmission_def bit_simps and.assoc)

text \<open>
  The amended claim C8 at the concrete state: the second half of the byte 0x41 in
  transmission, with the line-driver enable on bit 3.
\<close>

theorem xmit2_overflow_effects_witness:
  "t485_data_state t485_xmit2 = T485_STATE_XMIT2
     \<and> USICR (fst (USI_OVF_vect t485_xmit2)) AND 0x3C = 0
     \<and> TCCR0B (fst (USI_OVF_vect t485_xmit2)) AND 0x07 = 0
     \<and> t485_data_state (fst (USI_OVF_vect t485_xmit2)) = T485_STATE_IDLE
     \<and> snd (USI_OVF_vect t485_xmit2) = [byte_sent]
     \<and> DEN_PORT (fst (USI_OVF_vect t485_xmit2)) = 0x08
     \<and> GIMSK (fst (USI_OVF_vect t485_xmit2)) = 0
     \<and> \<not> bit (DEN_PORT (end_transmission 3 (fst (USI_OVF_vect t485_xmit2)))) 3
     \<and> bit (GIMSK (end_transmission 3 (fst (USI_OVF_vect t485_xmit2)))) 5"
proof -
  have h: "t485_data_state t485_xmit2 = T485_STATE_XMIT2"
    by (simp add: xmit2_state)
  have "DEN_PORT t485_xmit2 = 0x08" and "GIMSK t485_xmit2 = 0"
    by (simp_all add: xmit2_state)
  with h xmit2_overflow_effects [OF h, of 3] show ?thesis
    by simp
qed

subsection \<open>The sync byte in the receive path\<close>

text \<open>
  Claim C9. In the receive state a buffer register holding the sync byte 0xFF makes
  the overflow handler signal "sync received" and nothing else, in particular no
  "byte received", whatever the flags are: the test for the sync byte comes before
  the test of the escape flag.
\<close>

theorem sync_byte_is_sync_event:
  assumes "t485_data_state s = T485_STATE_RECV" and "USIBR s = T485_SYNC_BYTE"
  shows "snd (USI_OVF_vect s) = [sync_received]
         \<and> byte_received b \<notin> set (snd (USI_OVF_vect s))"
  using assms by (simp add: USI_OVF_vect_def Let_def t485_macros)

text \<open>Claim C9 at a concrete state with the escape flag set.\<close>

theorem sync_byte_is_sync_event_witness:
  "t485_data_state (t485_receiving T485_SYNC_BYTE t485_escaped) = T485_STATE_RECV
   \<and> USIBR (t485_receiving T485_SYNC_BYTE t485_escaped) = T485_SYNC_BYTE
   \<and> t485_data_flags (t485_receiving T485_SYNC_BYTE t485_escaped) AND T485_FLAG_ESCAPE \<noteq> 0
   \<and> snd (USI_OVF_vect (t485_receiving T485_SYNC_BYTE t485_escaped)) = [sync_received]
   \<and> byte_received T485_SYNC_BYTE
        \<notin> set (snd (USI_OVF_vect (t485_receiving T485_SYNC_BYTE t485_escaped)))"
proof -
  have h1: "t485_data_state (t485_receiving T485_SYNC_BYTE t485_escaped) = T485_STATE_RECV"
    and h2: "USIBR (t485_receiving T485_SYNC_BYTE t485_escaped) = T485_SYNC_BYTE"
    and h3: "t485_data_flags (t485_receiving T485_SYNC_BYTE t485_escaped)
               AND T485_FLAG_ESCAPE \<noteq> 0"
    by (simp_all add: escaped_receiving T485_FLAG_ESCAPE_def)
  from h1 h2 h3 sync_byte_is_sync_event [OF h1 h2, of T485_SYNC_BYTE] show ?thesis
    by simp
qed

subsection \<open>bit\_reverse\<close>

lemma and_bit_mask_nonzero: "(b AND push_bit i 1 \<noteq> 0) = bit b i" for b :: "8 word"
  by (simp add: and_exp_eq_0_iff_not_bit)

lemma bit_push_one: "k < 8 \<Longrightarrow> bit (push_bit k 1 :: 8 word) n = (n = k)"
  by (auto simp: bit_exp_iff)

lemma bit_reverse_step_bit:
  fixes b buf :: "8 word"
  assumes "i \<le> 7"
  shows "bit (if b AND push_bit i 1 \<noteq> 0 then buf OR push_bit (7 - i) 1 else buf) n
         = (bit buf n \<or> (n = 7 - i \<and> bit b i))"
proof -
  from assms have "7 - i < 8" by arith
  then show ?thesis
    unfolding and_bit_mask_nonzero
    by (simp only: bit_or_iff bit_push_one if_distrib [of "\<lambda>w. bit w n"] split: if_splits)
      auto
qed

lemma bit_reverse_loop_bit:
  "i \<le> 8 \<Longrightarrow>
   bit (bit_reverse_loop i b buf) n = (bit buf n \<or> (n < 8 \<and> i \<le> 7 - n \<and> bit b (7 - n)))"
proof (induction i b buf rule: bit_reverse_loop.induct)
  case (1 i b buf)
  show ?case
  proof (cases "i \<le> 7")
    case False
    have "\<not> 8 \<le> 7 - n" by arith
    with False show ?thesis by (simp add: bit_reverse_loop.simps)
  next
    case True
    let ?buf' = "if b AND push_bit i 1 \<noteq> 0 then buf OR push_bit (7 - i) 1 else buf"
    have step: "bit_reverse_loop i b buf = bit_reverse_loop (i + 1) b ?buf'"
      using True by (subst bit_reverse_loop.simps) simp
    have ih: "bit (bit_reverse_loop (i + 1) b ?buf') n =
                (bit ?buf' n \<or> (n < 8 \<and> i + 1 \<le> 7 - n \<and> bit b (7 - n)))"
      using "1.IH" [OF True] True by simp
    have new: "bit ?buf' n = (bit buf n \<or> (n = 7 - i \<and> bit b i))"
      using True by (rule bit_reverse_step_bit)
    have "(n = 7 - i \<and> bit b i \<or> (n < 8 \<and> i + 1 \<le> 7 - n \<and> bit b (7 - n)))
          = (n < 8 \<and> i \<le> 7 - n \<and> bit b (7 - n))"
      using True by (cases "n = 7 - i") auto
    then show ?thesis
      unfolding step ih new by blast
  qed
qed

lemma bit_bit_reverse: "bit (bit_reverse b) n = (n < 8 \<and> bit b (7 - n))"
  by (simp add: bit_reverse_def bit_reverse_loop_bit)

text \<open>
  Claim C10. \<open>bit_reverse\<close> is an involution: for every 8-bit value \<open>b\<close>, reversing
  the bits twice gives \<open>b\<close> back, so switching between host and wire bit order twice
  restores the byte.
\<close>

theorem bit_reverse_involution: "bit_reverse (bit_reverse b) = b"
proof (rule bit_eqI)
  fix n
  assume "possible_bit TYPE(8 word) n"
  then have n: "n < 8" by (simp add: possible_bit_word)
  then have "7 - (7 - n) = n" and "7 - n < 8" by arith+
  with n show "bit (bit_reverse (bit_reverse b)) n = bit b n"
    by (simp add: bit_bit_reverse)
qed

section \<open>Properties of the frame protocol\<close>

lemmas sbp_consts = SBP_HEADER_LENGTH_def SBP_CHECKSUM_LENGTH_def SBP_BYTE_SYNC_def

lemmas sbp_states = sbp_node2_idle_def sbp_node2_header_def sbp_node2_checksum_def
  sbp_node2_busy_def

subsection \<open>Receiving\<close>

text \<open>
  The last header byte always leads to the payload state, whatever the destination
  and the node's address are.
\<close>

lemma header_end_always_payload:
  assumes "data_state s = SBP_RECV_HEADER" and "data_index s = 5"
  shows "data_state (sbp_USI_OVF_vect s) = SBP_RECV_PAYLOAD"
  using assms by (simp add: sbp_USI_OVF_vect_def Let_def)

text \<open>The payload, checksum and ignore states are never left.\<close>

lemma recv_states_stuck:
  assumes "data_state s \<in> {SBP_RECV_PAYLOAD, SBP_RECV_CHECKSUM, SBP_RECV_IGNORE}"
  shows "sbp_USI_OVF_vect s = s"
  using assms by (auto simp: sbp_USI_OVF_vect_def)

text \<open>
  Claim C3 (addressing filter). Node 0x02 receives, after the sync byte, the header
  type 0x10, length 8, destination 0x03, source 0x01. Once the header is read the
  state is \<open>SBP_RECV_PAYLOAD\<close>, not \<open>SBP_RECV_IGNORE\<close>, and after the two remaining
  bytes of the declared length it still is, not \<open>SBP_IDLE\<close>.
\<close>

theorem foreign_frame_not_ignored:
  "data_address sbp_node2_header = 0x02
   \<and> frame_dst (data_frame
        (sbp_receive_bytes [0x10, 0x08, 0x00, 0x03, 0x01] sbp_node2_header)) = 0x03
   \<and> frame_length (data_frame
        (sbp_receive_bytes [0x10, 0x08, 0x00, 0x03, 0x01] sbp_node2_header)) = 8
   \<and> data_state (sbp_receive_bytes [0x10, 0x08, 0x00, 0x03, 0x01] sbp_node2_header)
       = SBP_RECV_PAYLOAD
   \<and> data_state
        (sbp_receive_bytes [0x10, 0x08, 0x00, 0x03, 0x01, 0x99, 0x5A] sbp_node2_header)
       = SBP_RECV_PAYLOAD"
  by (simp add: sbp_receive_bytes_def sbp_states sbp_USI_OVF_vect_def Let_def)

text \<open>
  Claim C5 (checksum gating). In the state \<open>SBP_RECV_CHECKSUM\<close> with 0x5A
  accumulated, the overflow handler leaves the whole state as it is when the received
  byte is 0x5A, and the state is not \<open>SBP_IDLE\<close> afterwards, for the matching byte
  as for the byte 0x5B.
\<close>

theorem checksum_state_inert:
  "data_state sbp_node2_checksum = SBP_RECV_CHECKSUM
   \<and> data_checksum sbp_node2_checksum = 0x5A
   \<and> sbp_USI_OVF_vect (sbp_node2_checksum\<lparr>sbp_USIBR := 0x5A\<rparr>)
       = sbp_node2_checksum\<lparr>sbp_USIBR := 0x5A\<rparr>
   \<and> data_state (sbp_USI_OVF_vect (sbp_node2_checksum\<lparr>sbp_USIBR := 0x5A\<rparr>)) \<noteq> SBP_IDLE
   \<and> data_state (sbp_USI_OVF_vect (sbp_node2_checksum\<lparr>sbp_USIBR := 0x5B\<rparr>)) \<noteq> SBP_IDLE"
  by (simp add: sbp_states sbp_USI_OVF_vect_def)

subsection \<open>Sending\<close>

text \<open>No transmit case of the overflow handler changes the index.\<close>

lemma xmit_never_advances_index:
  assumes "data_state s \<in> {SBP_XMIT_HEADER, SBP_XMIT_PAYLOAD, SBP_XMIT_CHECKSUM}"
  shows "data_index (sbp_USI_OVF_vect s) = data_index s"
  using assms by (auto simp: sbp_USI_OVF_vect_def)

text \<open>
  Claim C4 (send progress). Node 0x02, idle, sends type 0x10 with three payload
  bytes to node 0x03. After the first overflow event the index is still 0; after the
  second it is still 0 and the byte loaded is the sync byte 0xAA again, not the
  type 0x10.
\<close>

theorem send_index_not_advanced:
  "data_state (sbp_send 0x03 0x10 3 0x0100 sbp_node2_idle) = SBP_XMIT_HEADER
   \<and> frame_type (data_frame (sbp_send 0x03 0x10 3 0x0100 sbp_node2_idle)) = 0x10
   \<and> data_index (sbp_USI_OVF_vect (sbp_send 0x03 0x10 3 0x0100 sbp_node2_idle)) = 0
   \<and> sbp_USIBR (sbp_USI_OVF_vect (sbp_send 0x03 0x10 3 0x0100 sbp_node2_idle)) = 0xAA
   \<and> data_index (sbp_USI_OVF_vect (sbp_USI_OVF_vect
        (sbp_send 0x03 0x10 3 0x0100 sbp_node2_idle))) = 0
   \<and> sbp_USIBR (sbp_USI_OVF_vect (sbp_USI_OVF_vect
        (sbp_send 0x03 0x10 3 0x0100 sbp_node2_idle))) = 0xAA"
  by (simp add: sbp_send_def sbp_states sbp_USI_OVF_vect_def sbp_consts)

text \<open>
  Claim C6 (precondition and atomicity of \<open>sbp_send\<close>). Called in the idle state,
  \<open>sbp_send dst type len msg\<close> enters the transmit-header state with index 0 and a
  frame holding the sync byte, \<open>type\<close>, the length \<open>len + 6 + 1\<close> (in 16 bits),
  \<open>dst\<close>, this node's address as source and \<open>msg\<close> as payload reference. Called in
  any other state it leaves the whole state unchanged.
\<close>

theorem sbp_send_only_when_idle:
  "(data_state s = SBP_IDLE \<longrightarrow>
      data_state (sbp_send dst type len msg s) = SBP_XMIT_HEADER
      \<and> data_index (sbp_send dst type len msg s) = 0
      \<and> frame_sync (data_frame (sbp_send dst type len msg s)) = SBP_BYTE_SYNC
      \<and> frame_type (data_frame (sbp_send dst type len msg s)) = type
      \<and> frame_length (data_frame (sbp_send dst type len msg s)) = len + 6 + 1
      \<and> frame_dst (data_frame (sbp_send dst type len msg s)) = dst
      \<and> frame_src (data_frame (sbp_send dst type len msg s)) = data_address s
      \<and> frame_payload (data_frame (sbp_send dst type len msg s)) = msg)
   \<and> (data_state s \<noteq> SBP_IDLE \<longrightarrow> sbp_send dst type len msg s = s)"
  by (simp add: sbp_send_def sbp_consts)

text \<open>
  Claim C6 at two concrete states: node 0x02 idle, and the same node in the middle
  of a transmission.
\<close>

theorem sbp_send_only_when_idle_witness:
  "data_state sbp_node2_idle = SBP_IDLE
   \<and> data_state (sbp_send 0x03 0x10 3 0x0100 sbp_node2_idle) = SBP_XMIT_HEADER
   \<and> data_index (sbp_send 0x03 0x10 3 0x0100 sbp_node2_idle) = 0
   \<and> frame_sync (data_frame (sbp_send 0x03 0x10 3 0x0100 sbp_node2_idle)) = 0xAA
   \<and> frame_type (data_frame (sbp_send 0x03 0x10 3 0x0100 sbp_node2_idle)) = 0x10
   \<and> frame_length (data_frame (sbp_send 0x03 0x10 3 0x0100 sbp_node2_idle)) = 10
   \<and> frame_dst (data_frame (sbp_send 0x03 0x10 3 0x0100 sbp_node2_idle)) = 0x03
   \<and> frame_src (data_frame (sbp_send 0x03 0x10 3 0x0100 sbp_node2_idle)) = 0x02
   \<and> frame_payload (data_frame (sbp_send 0x03 0x10 3 0x0100 sbp_node2_idle)) = 0x0100
   \<and> data_state sbp_node2_busy \<noteq> SBP_IDLE
   \<and> sbp_send 0x03 0x10 3 0x0100 sbp_node2_busy = sbp_node2_busy"
proof -
  have idle: "data_state sbp_node2_idle = SBP_IDLE"
    and addr: "data_address sbp_node2_idle = 0x02"
    and busy: "data_state sbp_node2_busy \<noteq> SBP_IDLE"
    by (simp_all add: sbp_states)
  from idle addr busy
    sbp_send_only_when_idle [of sbp_node2_idle "0x03" "0x10" 3 "0x0100"]
    sbp_send_only_when_idle [of sbp_node2_busy "0x03" "0x10" 3 "0x0100"]
  show ?thesis
    by (simp add: SBP_BYTE_SYNC_def)
qed

end
